theory Spec2Isabelle
  imports Complex_Main "HOL-Library.FSet"
begin

section \<open>Numbers and time\<close>

text \<open>
  The detector computes with Go's \<open>float64\<close>.  Finite values are modelled as real
  numbers: rounding and overflow to infinity are left out.  The one place where the code
  produces a value that is not a number from finite input, the division \<open>0 / 0\<close> inside
  gonum's variance of a single sample, is kept: a computed statistic is either
  \<open>Finite x\<close> or \<open>NaN\<close>, and comparisons with \<open>NaN\<close> are false as in Go.
\<close>

datatype float64 = Finite real | NaN

text \<open>\<open>math.Abs\<close>.\<close>

fun fabs :: "float64 \<Rightarrow> float64" where
  "fabs (Finite x) = Finite \<bar>x\<bar>"
| "fabs NaN = NaN"

text \<open>The comparison \<open>a > b\<close> of two \<open>float64\<close> values.\<close>

fun fgt :: "float64 \<Rightarrow> float64 \<Rightarrow> bool" where
  "fgt (Finite x) (Finite y) = (y < x)"
| "fgt (Finite x) NaN = False"
| "fgt NaN y = False"

text \<open>
  A \<open>time.Time\<close> is an instant in nanoseconds (an unbounded integer: the range of
  \<open>time.Time\<close> is far beyond any timestamp).  A \<open>time.Duration\<close> is a signed 64-bit count
  of nanoseconds; \<open>wrap64\<close> is the wrap-around of 64-bit signed arithmetic and \<open>sat64\<close>
  the saturation that \<open>Time.Sub\<close> applies.
\<close>

definition wrap64 :: "int \<Rightarrow> int" where
  "wrap64 x = (x + 2 ^ 63) mod 2 ^ 64 - 2 ^ 63"

definition sat64 :: "int \<Rightarrow> int" where
  "sat64 x = (if x < - (2 ^ 63) then - (2 ^ 63) else if 2 ^ 63 - 1 < x then 2 ^ 63 - 1 else x)"

text \<open>\<open>time.Duration(f.windowSeconds) * time.Second\<close>, with \<open>int\<close> of 64 bits.\<close>

definition windowDuration :: "int \<Rightarrow> int" where
  "windowDuration ws = wrap64 (ws * 1000000000)"

text \<open>\<open>time.Since(t)\<close>, the clock reading \<open>now\<close> made explicit.\<close>

definition timeSince :: "int \<Rightarrow> int \<Rightarrow> int" where
  "timeSince now t = sat64 (now - t)"

section \<open>Data model\<close>

text \<open>\<open>FirewallLog\<close>; the free-form \<open>Raw\<close> map is never read and is left out.\<close>

record FirewallLog =
  Timestamp :: int
  LogSource :: string
  SourceIP :: string
  DestIP :: string
  ConnectionCount :: int
  BytesSent :: int
  BytesRecv :: int
  Action :: string
  Severity :: string

text \<open>\<open>WindowData\<close>; \<open>IPs\<close> is a \<open>map[string]bool\<close> whose entries are all \<open>true\<close>, a finite set.\<close>

record WindowData =
  Values :: "real list"
  IPs :: "string fset"
  LastMean :: real
  StartTime :: int
  EndTime :: int

text \<open>
  \<open>FirewallAnomalyDetector\<close>: the configuration the engine reads, the window registry and
  the three counters.  The logger and the Redis and Kafka settings are left out.
\<close>

record FirewallAnomalyDetector =
  windowSeconds :: int
  scoreThreshold :: real
  anomalyTopic :: string
  normalTopic :: string
  sources :: "string \<rightharpoonup> string"
  windows :: "string \<rightharpoonup> WindowData"
  processedLogs :: nat
  anomaliesDetected :: nat
  windowsCreated :: nat

text \<open>The message built by \<open>processLog\<close>: the structured result and its \<open>topic\<close> metadata.\<close>

record Message =
  timestamp :: int
  log_source :: string
  window_start :: int
  window_end :: int
  anomaly_score :: real
  is_anomaly :: bool
  reason :: string
  features :: "string \<rightharpoonup> float64"
  metric_field :: string
  metric_value :: real
  topic :: string

section \<open>Window store\<close>

text \<open>\<open>updateWindow\<close>: create the window if the key has none, append, extend the end time.\<close>

definition updateWindow ::
  "FirewallAnomalyDetector \<Rightarrow> string \<Rightarrow> real \<Rightarrow> string \<Rightarrow> int \<Rightarrow> FirewallAnomalyDetector" where
  "updateWindow f windowKey val sourceIP ts =
     (let (window, f1) =
            (case windows f windowKey of
               None \<Rightarrow>
                 (\<lparr>Values = [], IPs = {||}, LastMean = 0, StartTime = ts,
                   EndTime = ts + windowDuration (windowSeconds f)\<rparr>,
                  f\<lparr>windowsCreated := windowsCreated f + 1\<rparr>)
             | Some w \<Rightarrow> (w, f));
          window = window\<lparr>Values := Values window @ [val]\<rparr>;
          window = window\<lparr>IPs := finsert sourceIP (IPs window)\<rparr>;
          window = (if EndTime window < ts
                    then window\<lparr>EndTime := ts + windowDuration (windowSeconds f)\<rparr>
                    else window)
      in f1\<lparr>windows := (windows f1)(windowKey \<mapsto> window)\<rparr>)"

definition getWindow :: "FirewallAnomalyDetector \<Rightarrow> string \<Rightarrow> WindowData option" where
  "getWindow f windowKey = windows f windowKey"

definition clearWindow :: "FirewallAnomalyDetector \<Rightarrow> string \<Rightarrow> FirewallAnomalyDetector" where
  "clearWindow f windowKey = f\<lparr>windows := (windows f)(windowKey := None)\<rparr>"

section \<open>Feature extraction\<close>

text \<open>
  \<open>stat.Mean\<close> and \<open>stat.StdDev\<close> come from gonum (\<open>gonum.org/v1/gonum/stat\<close>), a
  library the repository imports; both are called with \<open>nil\<close> weights.  \<open>Mean\<close> is the
  sum divided by the length, and \<open>extractFeatures\<close> calls it on a non-empty slice only.
  \<open>StdDev\<close> is the square root of \<open>Variance\<close>, which gonum computes in two passes: with
  \<open>d = v - mean\<close> it accumulates \<open>ss += d * d\<close> and \<open>compensation += d\<close> and returns
  \<open>(ss - compensation * compensation / n) / (n - 1)\<close>.  For a single sample that is
  \<open>0 / 0\<close>, and for no sample the mean already is \<open>0 / 0\<close>.
\<close>

definition statMean :: "real list \<Rightarrow> real" where
  "statMean xs = sum_list xs / real (length xs)"

fun varianceLoop :: "real \<Rightarrow> real \<times> real \<Rightarrow> real list \<Rightarrow> real \<times> real" where
  "varianceLoop mean (ss, compensation) [] = (ss, compensation)"
| "varianceLoop mean (ss, compensation) (v # vs) =
     (let d = v - mean in varianceLoop mean (ss + d * d, compensation + d) vs)"

definition statVariance :: "real list \<Rightarrow> float64" where
  "statVariance xs =
     (if length xs \<le> 1 then NaN
      else (let mean = statMean xs;
                (ss, compensation) = varianceLoop mean (0, 0) xs
            in Finite ((ss - compensation * compensation / real (length xs))
                        / (real (length xs) - 1))))"

text \<open>\<open>math.Sqrt\<close>: not a number below zero.\<close>

fun fsqrt :: "float64 \<Rightarrow> float64" where
  "fsqrt (Finite x) = (if x < 0 then NaN else Finite (sqrt x))"
| "fsqrt NaN = NaN"

definition statStdDev :: "real list \<Rightarrow> float64" where
  "statStdDev xs = fsqrt (statVariance xs)"

text \<open>The loop of \<open>extractFeatures\<close> that finds the maximum and the minimum.\<close>

fun maxMinLoop :: "real \<times> real \<Rightarrow> real list \<Rightarrow> real \<times> real" where
  "maxMinLoop (mx, mn) [] = (mx, mn)"
| "maxMinLoop (mx, mn) (v # vs) =
     maxMinLoop (if mx < v then v else mx, if v < mn then v else mn) vs"

definition extractFeatures :: "WindowData \<Rightarrow> (string \<rightharpoonup> float64)" where
  "extractFeatures window =
     (case Values window of
        [] \<Rightarrow>
          [''mean_value'' \<mapsto> Finite 0, ''std_dev'' \<mapsto> Finite 0, ''max_value'' \<mapsto> Finite 0,
           ''min_value'' \<mapsto> Finite 0, ''percent_change'' \<mapsto> Finite 0,
           ''unique_ips'' \<mapsto> Finite 0, ''peak_to_mean_ratio'' \<mapsto> Finite 0]
      | v0 # rest \<Rightarrow>
          (let mean = statMean (Values window);
               stdDev = statStdDev (Values window);
               (mx, mn) = maxMinLoop (v0, v0) (Values window);
               percentChange =
                 (if 0 < LastMean window
                  then ((mean - LastMean window) / LastMean window) * 100 else 0);
               uniqueIPs = real (fcard (IPs window));
               peakToMeanRatio = (if 0 < mean then mx / mean else 0)
           in [''mean_value'' \<mapsto> Finite mean, ''std_dev'' \<mapsto> stdDev,
               ''max_value'' \<mapsto> Finite mx, ''min_value'' \<mapsto> Finite mn,
               ''percent_change'' \<mapsto> Finite percentChange,
               ''unique_ips'' \<mapsto> Finite uniqueIPs,
               ''peak_to_mean_ratio'' \<mapsto> Finite peakToMeanRatio]))"

section \<open>Anomaly scoring\<close>

text \<open>Reading a Go map at a key: the zero value when the key is missing.\<close>

definition feat :: "(string \<rightharpoonup> float64) \<Rightarrow> string \<Rightarrow> float64" where
  "feat m k = (case m k of None \<Rightarrow> Finite 0 | Some v \<Rightarrow> v)"

definition scoreAnomaly :: "(string \<rightharpoonup> float64) \<Rightarrow> real" where
  "scoreAnomaly fs =
     (let score = 0;
          score = (if fgt (fabs (feat fs ''percent_change'')) (Finite 50)
                   then score + 0.3 else score);
          score = (if fgt (feat fs ''peak_to_mean_ratio'') (Finite 3)
                   then score + 0.2 else score);
          score = (if fgt (feat fs ''std_dev'') (feat fs ''mean_value'')
                   then score + 0.2 else score);
          score = (if fgt (feat fs ''unique_ips'') (Finite 100)
                   then score + 0.3 else score)
      in min score 1)"

section \<open>Processing one record\<close>

text \<open>The \<open>switch\<close> on the configured metric field; \<open>None\<close> is its \<open>default\<close> branch.\<close>

definition metricValueOf :: "string \<Rightarrow> FirewallLog \<Rightarrow> real option" where
  "metricValueOf metricField lg =
     (if metricField = ''connection_count'' then Some (real_of_int (ConnectionCount lg))
      else if metricField = ''bytes_sent'' then Some (real_of_int (BytesSent lg))
      else if metricField = ''bytes_recv'' then Some (real_of_int (BytesRecv lg))
      else None)"

text \<open>
  \<open>processLog\<close> returns a message or \<open>nil\<close>, and an error that is \<open>nil\<close> on every path;
  the model returns the message, the error and the detector after the call.
\<close>

datatype error = Error string

definition buildMessage ::
  "FirewallAnomalyDetector \<Rightarrow> FirewallLog \<Rightarrow> WindowData \<Rightarrow> string \<Rightarrow> real \<Rightarrow> Message" where
  "buildMessage f lg window metricField metricValue =
     (let feats = extractFeatures window;
          anomalyScore = scoreAnomaly feats;
          isAnomaly = (scoreThreshold f \<le> anomalyScore)
      in \<lparr>timestamp = EndTime window, log_source = LogSource lg,
          window_start = StartTime window, window_end = EndTime window,
          anomaly_score = anomalyScore, is_anomaly = isAnomaly,
          reason = ''hike_rate_detected'', features = feats,
          metric_field = metricField, metric_value = metricValue,
          topic = (if isAnomaly then anomalyTopic f else normalTopic f)\<rparr>)"

definition processLog ::
  "int \<Rightarrow> FirewallAnomalyDetector \<Rightarrow> FirewallLog
     \<Rightarrow> (Message option \<times> error option) \<times> FirewallAnomalyDetector" where
  "processLog now f lg =
     (let f1 = f\<lparr>processedLogs := processedLogs f + 1\<rparr> in
      case sources f1 (LogSource lg) of
        None \<Rightarrow> ((None, None), f1)
      | Some metricField \<Rightarrow>
          (case metricValueOf metricField lg of
             None \<Rightarrow> ((None, None), f1)
           | Some metricValue \<Rightarrow>
               (let windowKey = LogSource lg;
                    f2 = updateWindow f1 windowKey metricValue (SourceIP lg) (Timestamp lg)
                in case getWindow f2 windowKey of
                     None \<Rightarrow> ((None, None), f2)
                   | Some window \<Rightarrow>
                       if timeSince now (EndTime window) < windowDuration (windowSeconds f2)
                       then ((None, None), f2)
                       else
                         (let msg = buildMessage f2 lg window metricField metricValue;
                              f3 = (if is_anomaly msg
                                    then f2\<lparr>anomaliesDetected := anomaliesDetected f2 + 1\<rparr>
                                    else f2);
                              f4 = clearWindow f3 windowKey
                          in ((Some msg, None), f4)))))"

section \<open>Sequences of operations\<close>

text \<open>A sequence of \<open>updateWindow\<close> calls, each with its key, value, origin IP and timestamp.\<close>

fun upserts ::
  "FirewallAnomalyDetector \<Rightarrow> (string \<times> real \<times> string \<times> int) list
     \<Rightarrow> FirewallAnomalyDetector" where
  "upserts f [] = f"
| "upserts f ((k, v, ip, t) # us) = upserts (updateWindow f k v ip t) us"

text \<open>
  The operations that change the window registry: the two store operations, which the
  tests also call directly, and \<open>processLog\<close> at a given clock reading.
\<close>

datatype engineOp =
    OpUpdateWindow string real string int
  | OpClearWindow string
  | OpProcessLog int FirewallLog

fun applyOp :: "FirewallAnomalyDetector \<Rightarrow> engineOp \<Rightarrow> FirewallAnomalyDetector" where
  "applyOp f (OpUpdateWindow k v ip t) = updateWindow f k v ip t"
| "applyOp f (OpClearWindow k) = clearWindow f k"
| "applyOp f (OpProcessLog now lg) = snd (processLog now f lg)"

fun runOps :: "FirewallAnomalyDetector \<Rightarrow> engineOp list \<Rightarrow> FirewallAnomalyDetector" where
  "runOps f [] = f"
| "runOps f (op # ops) = runOps (applyOp f op) ops"

section \<open>Concurrent callers\<close>

text \<open>
  \<open>processLog\<close> takes the registry lock three times: in \<open>updateWindow\<close>, in \<open>getWindow\<close>
  and in \<open>clearWindow\<close>.  A call in progress is therefore at one of three points, and
  \<open>callStep\<close> runs it to the next one: from the start to the end of \<open>updateWindow\<close>; from
  there through \<open>getWindow\<close>, the eligibility test and the building of the message; and
  from there through \<open>clearWindow\<close> to the return.  Each step runs without interruption,
  which is one of the schedules the locks allow.
\<close>

datatype callState =
    Start
  | Updated string real
  | Emitting Message
  | Returned "Message option"

fun callStep ::
  "int \<Rightarrow> FirewallLog \<Rightarrow> callState \<times> FirewallAnomalyDetector
     \<Rightarrow> callState \<times> FirewallAnomalyDetector" where
  "callStep now lg (Start, f) =
     (let f1 = f\<lparr>processedLogs := processedLogs f + 1\<rparr> in
      case sources f1 (LogSource lg) of
        None \<Rightarrow> (Returned None, f1)
      | Some metricField \<Rightarrow>
          (case metricValueOf metricField lg of
             None \<Rightarrow> (Returned None, f1)
           | Some metricValue \<Rightarrow>
               (Updated metricField metricValue,
                updateWindow f1 (LogSource lg) metricValue (SourceIP lg) (Timestamp lg))))"
| "callStep now lg (Updated metricField metricValue, f) =
     (case getWindow f (LogSource lg) of
        None \<Rightarrow> (Returned None, f)
      | Some window \<Rightarrow>
          if timeSince now (EndTime window) < windowDuration (windowSeconds f)
          then (Returned None, f)
          else
            (let msg = buildMessage f lg window metricField metricValue
             in (Emitting msg,
                 if is_anomaly msg
                 then f\<lparr>anomaliesDetected := anomaliesDetected f + 1\<rparr> else f)))"
| "callStep now lg (Emitting msg, f) = (Returned (Some msg), clearWindow f (LogSource lg))"
| "callStep now lg (Returned r, f) = (Returned r, f)"

text \<open>
  Several calls on one detector: call \<open>i\<close> processes \<open>logs ! i\<close>, and the schedule lists
  which call takes its next step and what the clock reads then.
\<close>

fun interleave ::
  "FirewallLog list \<Rightarrow> (nat \<times> int) list \<Rightarrow> callState list \<times> FirewallAnomalyDetector
     \<Rightarrow> callState list \<times> FirewallAnomalyDetector" where
  "interleave logs [] s = s"
| "interleave logs ((i, now) # sched) (cs, f) =
     (if i < length cs \<and> i < length logs
      then (let (c, f') = callStep now (logs ! i) (cs ! i, f)
            in interleave logs sched (cs[i := c], f'))
      else interleave logs sched (cs, f))"

section \<open>Reference notions\<close>

text \<open>The seven keys of a feature vector.\<close>

definition featureNames :: "string list" where
  "featureNames = [''mean_value'', ''std_dev'', ''max_value'', ''min_value'',
                   ''percent_change'', ''unique_ips'', ''peak_to_mean_ratio'']"

text \<open>
  The two textbook standard deviations, written from their definitions and not from the
  code: the square root of the sum of squared deviations from the mean, divided by the
  count (population) or by the count minus one (sample).
\<close>

definition populationStdDev :: "real list \<Rightarrow> real" where
  "populationStdDev xs =
     sqrt ((\<Sum>x\<leftarrow>xs. (x - sum_list xs / real (length xs)) ^ 2) / real (length xs))"

definition sampleStdDev :: "real list \<Rightarrow> real" where
  "sampleStdDev xs =
     sqrt ((\<Sum>x\<leftarrow>xs. (x - sum_list xs / real (length xs)) ^ 2) / (real (length xs) - 1))"


section \<open>Test fixtures\<close>

text \<open>
  A detector with the default configuration of the plugin and an empty registry, and a
  record of the source \<open>fortinet.firewall\<close> as in the repository's tests.
\<close>

definition testDetector :: FirewallAnomalyDetector where
  "testDetector =
     \<lparr>windowSeconds = 60, scoreThreshold = 0.7,
      anomalyTopic = ''firewall-anomalies'', normalTopic = ''firewall-normal'',
      sources = [''fortinet.firewall'' \<mapsto> ''connection_count'',
                 ''paloalto.firewall'' \<mapsto> ''bytes_sent''],
      windows = Map.empty, processedLogs = 0, anomaliesDetected = 0, windowsCreated = 0\<rparr>"

definition testLog :: "int \<Rightarrow> int \<Rightarrow> FirewallLog" where
  "testLog ts n =
     \<lparr>Timestamp = ts, LogSource = ''fortinet.firewall'', SourceIP = ''192.168.1.100'',
      DestIP = ''10.0.0.50'', ConnectionCount = n, BytesSent = 1024, BytesRecv = 2048,
      Action = ''accept'', Severity = ''medium''\<rparr>"

text \<open>The message for a window that holds the single sample \<open>150\<close>.\<close>

definition testMessage :: Message where
  "testMessage =
     \<lparr>timestamp = 60000000000, log_source = ''fortinet.firewall'',
      window_start = 0, window_end = 60000000000,
      anomaly_score = 0, is_anomaly = False, reason = ''hike_rate_detected'',
      features = [''mean_value'' \<mapsto> Finite 150, ''std_dev'' \<mapsto> NaN,
                  ''max_value'' \<mapsto> Finite 150, ''min_value'' \<mapsto> Finite 150,
                  ''percent_change'' \<mapsto> Finite 0, ''unique_ips'' \<mapsto> Finite 1,
                  ''peak_to_mean_ratio'' \<mapsto> Finite 1],
      metric_field = ''connection_count'', metric_value = 150,
      topic = ''firewall-normal''\<rparr>"

text \<open>
  The detector after one record with timestamp \<open>0\<close> and value \<open>100\<close>: one open window
  from \<open>0\<close> to 60 seconds.  \<open>flushedMessage\<close> is the message for that window once every
  sample in it is \<open>100\<close>.
\<close>

definition openDetector :: FirewallAnomalyDetector where
  "openDetector = snd (processLog 0 testDetector (testLog 0 100))"

definition flushedMessage :: Message where
  "flushedMessage =
     \<lparr>timestamp = 60000000000, log_source = ''fortinet.firewall'',
      window_start = 0, window_end = 60000000000,
      anomaly_score = 0, is_anomaly = False, reason = ''hike_rate_detected'',
      features = [''mean_value'' \<mapsto> Finite 100, ''std_dev'' \<mapsto> Finite 0,
                  ''max_value'' \<mapsto> Finite 100, ''min_value'' \<mapsto> Finite 100,
                  ''percent_change'' \<mapsto> Finite 0, ''unique_ips'' \<mapsto> Finite 1,
                  ''peak_to_mean_ratio'' \<mapsto> Finite 1],
      metric_field = ''connection_count'', metric_value = 100,
      topic = ''firewall-normal''\<rparr>"



section \<open>Feature extraction: the fields of the vector\<close>

lemma dom_extractFeatures: "dom (extractFeatures w) = set featureNames"
  by (auto simp: extractFeatures_def featureNames_def Let_def
           split: list.splits prod.splits if_splits)

lemma ef_nil:
  "Values w = [] \<Longrightarrow>
     extractFeatures w = (\<lambda>k. if k \<in> set featureNames then Some (Finite 0) else None)"
  by (auto simp: extractFeatures_def featureNames_def fun_eq_iff)

lemma ef_mean:
  "Values w \<noteq> [] \<Longrightarrow>
     extractFeatures w ''mean_value'' = Some (Finite (statMean (Values w)))"
  by (cases "Values w") (simp_all add: extractFeatures_def Let_def split: prod.splits)

lemma ef_std:
  "Values w \<noteq> [] \<Longrightarrow> extractFeatures w ''std_dev'' = Some (statStdDev (Values w))"
  by (cases "Values w") (simp_all add: extractFeatures_def Let_def split: prod.splits)

lemma ef_max:
  "Values w \<noteq> [] \<Longrightarrow>
     extractFeatures w ''max_value'' =
       Some (Finite (fst (maxMinLoop (hd (Values w), hd (Values w)) (Values w))))"
  by (cases "Values w") (simp_all add: extractFeatures_def Let_def split: prod.splits)

lemma ef_min:
  "Values w \<noteq> [] \<Longrightarrow>
     extractFeatures w ''min_value'' =
       Some (Finite (snd (maxMinLoop (hd (Values w), hd (Values w)) (Values w))))"
  by (cases "Values w") (simp_all add: extractFeatures_def Let_def split: prod.splits)

lemma ef_pct:
  "Values w \<noteq> [] \<Longrightarrow>
     extractFeatures w ''percent_change'' =
       Some (Finite (if 0 < LastMean w
                     then ((statMean (Values w) - LastMean w) / LastMean w) * 100 else 0))"
  by (cases "Values w") (simp_all add: extractFeatures_def Let_def split: prod.splits)

lemma ef_peak:
  "Values w \<noteq> [] \<Longrightarrow>
     extractFeatures w ''peak_to_mean_ratio'' =
       Some (Finite (if 0 < statMean (Values w)
                     then fst (maxMinLoop (hd (Values w), hd (Values w)) (Values w))
                            / statMean (Values w)
                     else 0))"
  by (cases "Values w") (simp_all add: extractFeatures_def Let_def split: prod.splits)

text \<open>
  C5.  Whatever the window, the map returned by \<open>extractFeatures\<close> has exactly the seven
  named keys, and for a window without samples each of the seven is \<open>0.0\<close>.
\<close>

theorem extractFeatures_seven_fields:
  "dom (extractFeatures w) = set featureNames
   \<and> length featureNames = 7 \<and> distinct featureNames
   \<and> extractFeatures (w\<lparr>Values := []\<rparr>)
       = (\<lambda>k. if k \<in> set featureNames then Some (Finite 0) else None)"
  by (simp add: dom_extractFeatures ef_nil) (simp add: featureNames_def)

section \<open>Feature extraction: the standard deviation\<close>

lemma varianceLoop_eq:
  "varianceLoop m (ss, c) xs = (ss + (\<Sum>x\<leftarrow>xs. (x - m) ^ 2), c + (\<Sum>x\<leftarrow>xs. x - m))"
  by (induction xs arbitrary: ss c) (simp_all add: Let_def power2_eq_square)

lemma sum_list_dev: "(\<Sum>x\<leftarrow>xs. x - m) = sum_list xs - real (length xs) * (m::real)"
  by (induction xs) (simp_all add: algebra_simps)

lemma compensation_zero: "xs \<noteq> [] \<Longrightarrow> (\<Sum>x\<leftarrow>xs. x - statMean xs) = 0"
  by (simp add: sum_list_dev statMean_def)

lemma sum_list_sq_nonneg: "0 \<le> (\<Sum>x\<leftarrow>xs. (x - (m::real)) ^ 2)"
  by (induction xs) simp_all

text \<open>
  In exact arithmetic the compensation term of the two-pass algorithm vanishes, so from two
  samples on gonum's \<open>StdDev\<close> is the sample standard deviation.
\<close>

lemma statStdDev_sample:
  assumes "2 \<le> length xs"
  shows "statStdDev xs = Finite (sampleStdDev xs)"
proof -
  from assms have ne: "xs \<noteq> []" by auto
  have n1: "0 < real (length xs) - 1" using assms by simp
  have v: "statVariance xs
             = Finite ((\<Sum>x\<leftarrow>xs. (x - statMean xs) ^ 2) / (real (length xs) - 1))"
    using assms by (simp add: statVariance_def varianceLoop_eq compensation_zero [OF ne])
  have "0 \<le> (\<Sum>x\<leftarrow>xs. (x - statMean xs) ^ 2) / (real (length xs) - 1)"
    using n1 sum_list_sq_nonneg [where xs = xs and m = "statMean xs"] by simp
  then show ?thesis
    by (simp add: statStdDev_def v sampleStdDev_def statMean_def)
qed

lemma sample_five: "sampleStdDev [10, 20, 30, 40, 50] = sqrt 250"
  by (simp add: sampleStdDev_def)

lemma population_five: "populationStdDev [10, 20, 30, 40, 50] = sqrt 200"
  by (simp add: populationStdDev_def)

lemma statStdDev_five: "statStdDev [10, 20, 30, 40, 50] = Finite (sqrt 250)"
  using statStdDev_sample [of "[10, 20, 30, 40, 50]"] by (simp add: sample_five)

lemma sqrt_250_bounds: "15.8113883008418966 < sqrt 250" "sqrt 250 < 15.8113883008418967"
  by (rule real_less_rsqrt, simp add: power2_eq_square)
     (rule real_less_lsqrt, simp_all add: power2_eq_square)

text \<open>
  C1, as stated, fails.  The claim reads: for a window with at least one sample \<open>std_dev\<close>
  is the population standard deviation.  On the samples \<open>10, 20, 30, 40, 50\<close> the code
  returns the square root of 250, the population value is the square root of 200.
\<close>

theorem std_dev_population_counterexample:
  "extractFeatures \<lparr>Values = [10, 20, 30, 40, 50], IPs = {||}, LastMean = 0,
                     StartTime = 0, EndTime = 0\<rparr> ''std_dev''
     \<noteq> Some (Finite (populationStdDev [10, 20, 30, 40, 50]))"
  by (simp add: ef_std statStdDev_five population_five)

text \<open>
  C1, amended.  For a window with at least two samples \<open>std_dev\<close> is the sample standard
  deviation of the sample sequence (the square root of the sum of squared deviations from
  the mean divided by the count minus one); for a window with no samples it is \<open>0\<close>.
\<close>

theorem std_dev_sample:
  "(2 \<le> length (Values w) \<longrightarrow>
      extractFeatures w ''std_dev'' = Some (Finite (sampleStdDev (Values w))))
   \<and> (Values w = [] \<longrightarrow> extractFeatures w ''std_dev'' = Some (Finite 0))"
proof (intro conjI impI)
  assume len: "2 \<le> length (Values w)"
  then have "Values w \<noteq> []" by auto
  then show "extractFeatures w ''std_dev'' = Some (Finite (sampleStdDev (Values w)))"
    by (simp add: ef_std statStdDev_sample [OF len])
next
  assume "Values w = []"
  then show "extractFeatures w ''std_dev'' = Some (Finite 0)"
    by (simp add: ef_nil featureNames_def)
qed

theorem std_dev_sample_witness:
  "2 \<le> length (Values \<lparr>Values = [10, 20, 30, 40, 50], IPs = {||}, LastMean = 0,
                           StartTime = 0, EndTime = 0\<rparr>)
   \<and> extractFeatures \<lparr>Values = [10, 20, 30, 40, 50], IPs = {||}, LastMean = 0,
                        StartTime = 0, EndTime = 0\<rparr> ''std_dev'' = Some (Finite (sqrt 250))
   \<and> Values \<lparr>Values = [], IPs = {||}, LastMean = 0, StartTime = 0, EndTime = 0\<rparr> = []
   \<and> extractFeatures \<lparr>Values = [], IPs = {||}, LastMean = 0, StartTime = 0, EndTime = 0\<rparr>
         ''std_dev'' = Some (Finite 0)"
  using std_dev_sample [of "\<lparr>Values = [10, 20, 30, 40, 50], IPs = {||}, LastMean = 0,
                             StartTime = 0, EndTime = 0\<rparr>"]
        std_dev_sample [of "\<lparr>Values = [], IPs = {||}, LastMean = 0,
                             StartTime = 0, EndTime = 0\<rparr>"]
  by (simp add: sample_five)

text \<open>
  C2.  For the samples \<open>10, 20, 30, 40, 50\<close> and the baseline mean \<open>25\<close> the vector has
  \<open>mean_value = 30\<close>, \<open>std_dev\<close> the square root of 250 (within \<open>1 / 10 ^ 15\<close> of
  \<open>15.811388300841896\<close>), \<open>max_value = 50\<close>, \<open>min_value = 10\<close>, \<open>peak_to_mean_ratio = 5 / 3\<close>
  (within \<open>1 / 10 ^ 15\<close> of \<open>1.6666666666666667\<close>) and \<open>percent_change = 20\<close>.
\<close>

theorem extractFeatures_test_vector:
  "extractFeatures (w\<lparr>Values := [10, 20, 30, 40, 50], LastMean := 25\<rparr>) ''mean_value''
       = Some (Finite 30)
   \<and> extractFeatures (w\<lparr>Values := [10, 20, 30, 40, 50], LastMean := 25\<rparr>) ''std_dev''
       = Some (Finite (sqrt 250))
   \<and> \<bar>sqrt 250 - 15.811388300841896\<bar> < 1 / 10 ^ 15
   \<and> extractFeatures (w\<lparr>Values := [10, 20, 30, 40, 50], LastMean := 25\<rparr>) ''max_value''
       = Some (Finite 50)
   \<and> extractFeatures (w\<lparr>Values := [10, 20, 30, 40, 50], LastMean := 25\<rparr>) ''min_value''
       = Some (Finite 10)
   \<and> extractFeatures (w\<lparr>Values := [10, 20, 30, 40, 50], LastMean := 25\<rparr>)
         ''peak_to_mean_ratio'' = Some (Finite (5 / 3))
   \<and> \<bar>5 / 3 - (1.6666666666666667 :: real)\<bar> < 1 / 10 ^ 15
   \<and> extractFeatures (w\<lparr>Values := [10, 20, 30, 40, 50], LastMean := 25\<rparr>) ''percent_change''
       = Some (Finite 20)"
proof -
  let ?w = "w\<lparr>Values := [10, 20, 30, 40, 50], LastMean := 25\<rparr>"
  have ne: "Values ?w \<noteq> []" by simp
  have m: "statMean [10, 20, 30, 40, 50] = 30" by (simp add: statMean_def)
  have c1: "extractFeatures ?w ''mean_value'' = Some (Finite 30)"
    using ef_mean [OF ne] by (simp add: m)
  have c2: "extractFeatures ?w ''std_dev'' = Some (Finite (sqrt 250))"
    using ef_std [OF ne] by (simp add: statStdDev_five)
  have c3: "\<bar>sqrt 250 - 15.811388300841896\<bar> < 1 / 10 ^ 15"
    using sqrt_250_bounds by (simp add: abs_less_iff)
  have c4: "extractFeatures ?w ''max_value'' = Some (Finite 50)"
    using ef_max [OF ne] by simp
  have c5: "extractFeatures ?w ''min_value'' = Some (Finite 10)"
    using ef_min [OF ne] by simp
  have c6: "extractFeatures ?w ''peak_to_mean_ratio'' = Some (Finite (5 / 3))"
    using ef_peak [OF ne] by (simp add: m)
  have c7: "\<bar>5 / 3 - (1.6666666666666667 :: real)\<bar> < 1 / 10 ^ 15"
    by (simp add: abs_less_iff)
  have c8: "extractFeatures ?w ''percent_change'' = Some (Finite 20)"
    using ef_pct [OF ne] by (simp add: m)
  from c1 c2 c3 c4 c5 c6 c7 c8 show ?thesis by blast
qed

section \<open>Feature extraction: minimum, mean and maximum\<close>








section \<open>Evaluating the fixtures\<close>

lemma windowDuration_60: "windowDuration 60 = 60000000000"
  by (simp add: windowDuration_def wrap64_def)

lemmas eval_defs =
  Let_def testDetector_def testLog_def metricValueOf_def updateWindow_def getWindow_def
  clearWindow_def timeSince_def sat64_def windowDuration_60 buildMessage_def
  extractFeatures_def statMean_def statStdDev_def statVariance_def scoreAnomaly_def
  feat_def fcard_finsert_if fcard_fempty

lemma test_flush:
  "fst (processLog 120000000000 testDetector (testLog 0 150)) = (Some testMessage, None)"
  by (simp add: processLog_def eval_defs testMessage_def)

lemma openDetector_eq:
  "openDetector =
     testDetector\<lparr>processedLogs := 1, windowsCreated := 1,
       windows := [''fortinet.firewall'' \<mapsto>
         \<lparr>Values = [100], IPs = {|''192.168.1.100''|}, LastMean = 0,
          StartTime = 0, EndTime = 60000000000\<rparr>]\<rparr>"
  by (simp add: openDetector_def processLog_def eval_defs)

section \<open>Frame properties of the store operations\<close>

lemma updateWindow_frame:
  "windowSeconds (updateWindow f k v ip t) = windowSeconds f"
  "scoreThreshold (updateWindow f k v ip t) = scoreThreshold f"
  "sources (updateWindow f k v ip t) = sources f"
  "processedLogs (updateWindow f k v ip t) = processedLogs f"
  "anomaliesDetected (updateWindow f k v ip t) = anomaliesDetected f"
  by (simp_all add: updateWindow_def Let_def split: option.splits)

lemma clearWindow_frame:
  "windowSeconds (clearWindow f k) = windowSeconds f"
  "scoreThreshold (clearWindow f k) = scoreThreshold f"
  "sources (clearWindow f k) = sources f"
  "processedLogs (clearWindow f k) = processedLogs f"
  "anomaliesDetected (clearWindow f k) = anomaliesDetected f"
  "windowsCreated (clearWindow f k) = windowsCreated f"
  by (simp_all add: clearWindow_def)

lemma updateWindow_created:
  "windowsCreated (updateWindow f k v ip t)
     = windowsCreated f + (if windows f k = None then 1 else 0)"
  by (simp add: updateWindow_def Let_def split: option.splits)

lemma updateWindow_windows:
  "windows (updateWindow f k v ip t) k' =
     (if k' = k
      then Some (let w0 = (case windows f k of
                             None \<Rightarrow> \<lparr>Values = [], IPs = {||}, LastMean = 0, StartTime = t,
                                       EndTime = t + windowDuration (windowSeconds f)\<rparr>
                           | Some w \<Rightarrow> w)
                 in w0\<lparr>Values := Values w0 @ [v], IPs := finsert ip (IPs w0),
                       EndTime := (if EndTime w0 < t then t + windowDuration (windowSeconds f)
                                   else EndTime w0)\<rparr>)
      else windows f k')"
  by (simp add: updateWindow_def Let_def split: option.splits)

lemma clearWindow_windows:
  "windows (clearWindow f k) k' = (if k' = k then None else windows f k')"
  by (simp add: clearWindow_def)

section \<open>Anomaly scoring\<close>

lemma scoreAnomaly_sum:
  "scoreAnomaly fs =
     max 0 (min 1
       ((if fgt (fabs (feat fs ''percent_change'')) (Finite 50) then 0.3 else 0)
        + (if fgt (feat fs ''peak_to_mean_ratio'') (Finite 3) then 0.2 else 0)
        + (if fgt (feat fs ''std_dev'') (feat fs ''mean_value'') then 0.2 else 0)
        + (if fgt (feat fs ''unique_ips'') (Finite 100) then 0.3 else 0)))"
  by (simp add: scoreAnomaly_def Let_def)

lemma scoreAnomaly_range: "0 \<le> scoreAnomaly fs \<and> scoreAnomaly fs \<le> 1"
  by (simp add: scoreAnomaly_def Let_def)

lemma buildMessage_flag:
  "is_anomaly (buildMessage f lg w mf mv)
     = (scoreThreshold f \<le> anomaly_score (buildMessage f lg w mf mv))"
  "anomaly_score (buildMessage f lg w mf mv)
     = scoreAnomaly (features (buildMessage f lg w mf mv))"
  by (simp_all add: buildMessage_def Let_def)

lemma processLog_flag:
  assumes "processLog now f lg = ((Some msg, e), f')"
  shows "anomaly_score msg = scoreAnomaly (features msg)
       \<and> is_anomaly msg = (scoreThreshold f \<le> anomaly_score msg)"
proof -
  from assms obtain f2 w mf mv
    where m: "msg = buildMessage f2 lg w mf mv" and t: "scoreThreshold f2 = scoreThreshold f"
    by (fastforce simp: processLog_def Let_def updateWindow_frame
                  split: option.splits if_splits)
  show ?thesis
    using buildMessage_flag [of f2 lg w mf mv] m t by simp
qed

text \<open>
  C6.  For every feature vector \<open>scoreAnomaly\<close> returns the sum of \<open>0.3\<close> if
  \<open>|percent_change| > 50\<close>, \<open>0.2\<close> if \<open>peak_to_mean_ratio > 3\<close>, \<open>0.2\<close> if
  \<open>std_dev > mean_value\<close> and \<open>0.3\<close> if \<open>unique_ips > 100\<close>, clamped into \<open>[0, 1]\<close>, so the
  result lies in \<open>[0, 1]\<close>; and a message emitted by \<open>processLog\<close> carries the score of its
  features and has \<open>is_anomaly\<close> true exactly when that score is at least the configured
  threshold.
\<close>

theorem scoreAnomaly_clamped_sum:
  assumes "processLog now f lg = ((Some msg, e), f')"
  shows "scoreAnomaly fs =
     max 0 (min 1
       ((if fgt (fabs (feat fs ''percent_change'')) (Finite 50) then 0.3 else 0)
        + (if fgt (feat fs ''peak_to_mean_ratio'') (Finite 3) then 0.2 else 0)
        + (if fgt (feat fs ''std_dev'') (feat fs ''mean_value'') then 0.2 else 0)
        + (if fgt (feat fs ''unique_ips'') (Finite 100) then 0.3 else 0)))
   \<and> 0 \<le> scoreAnomaly fs \<and> scoreAnomaly fs \<le> 1
   \<and> anomaly_score msg = scoreAnomaly (features msg)
   \<and> is_anomaly msg = (scoreThreshold f \<le> anomaly_score msg)"
  using scoreAnomaly_sum [of fs] scoreAnomaly_range [of fs] processLog_flag [OF assms]
  by simp

theorem scoreAnomaly_clamped_sum_witness:
  "fst (processLog 120000000000 testDetector (testLog 0 150)) = (Some testMessage, None)
   \<and> scoreAnomaly (features testMessage) = 0
   \<and> anomaly_score testMessage = scoreAnomaly (features testMessage)
   \<and> is_anomaly testMessage = (scoreThreshold testDetector \<le> anomaly_score testMessage)"
proof -
  have run: "processLog 120000000000 testDetector (testLog 0 150)
               = ((Some testMessage, None),
                  snd (processLog 120000000000 testDetector (testLog 0 150)))"
    using test_flush by (simp add: prod_eq_iff)
  show ?thesis
    using scoreAnomaly_clamped_sum [OF run, of "features testMessage"] test_flush
    by (simp add: testMessage_def feat_def)
qed

section \<open>Records with an unknown metric field\<close>

text \<open>
  C3, as stated, fails.  The claim reads: when the configured metric field is not a
  recognized one, the value is taken as \<open>0.0\<close> and \<open>updateWindow\<close> is still called.  With
  the source mapped to \<open>unknown_field\<close>, the key has no window after \<open>processLog\<close>.
\<close>

theorem unknown_metric_upsert_counterexample:
  "sources (testDetector\<lparr>sources := [''fortinet.firewall'' \<mapsto> ''unknown_field'']\<rparr>)
       (LogSource (testLog 0 150)) = Some ''unknown_field''
   \<and> ''unknown_field'' \<notin> {''connection_count'', ''bytes_sent'', ''bytes_recv''}
   \<and> getWindow (snd (processLog 0
          (testDetector\<lparr>sources := [''fortinet.firewall'' \<mapsto> ''unknown_field'']\<rparr>)
          (testLog 0 150))) (LogSource (testLog 0 150)) = None"
  by (simp add: processLog_def testDetector_def testLog_def metricValueOf_def getWindow_def)

text \<open>
  C3, amended.  For every record whose source-key is present in the mapping but whose
  configured metric field is not \<open>connection_count\<close>, \<open>bytes_sent\<close> or \<open>bytes_recv\<close>, the
  record is dropped: \<open>processLog\<close> returns no message and no error, the window registry is
  unchanged (no sample is appended, no window is created, flush-eligibility is not
  tested), and only the processed counter is incremented.
\<close>

theorem unknown_metric_dropped:
  assumes "sources f (LogSource lg) = Some metricField"
    and "metricField \<notin> {''connection_count'', ''bytes_sent'', ''bytes_recv''}"
  shows "processLog now f lg = ((None, None), f\<lparr>processedLogs := processedLogs f + 1\<rparr>)"
  using assms by (simp add: processLog_def metricValueOf_def)

theorem unknown_metric_dropped_witness:
  "sources (testDetector\<lparr>sources := [''fortinet.firewall'' \<mapsto> ''unknown_field'']\<rparr>)
       (LogSource (testLog 0 150)) = Some ''unknown_field''
   \<and> ''unknown_field'' \<notin> {''connection_count'', ''bytes_sent'', ''bytes_recv''}
   \<and> processLog 0 (testDetector\<lparr>sources := [''fortinet.firewall'' \<mapsto> ''unknown_field'']\<rparr>)
         (testLog 0 150)
       = ((None, None),
          testDetector\<lparr>sources := [''fortinet.firewall'' \<mapsto> ''unknown_field''],
                       processedLogs := 1\<rparr>)"
proof -
  have s: "sources (testDetector\<lparr>sources := [''fortinet.firewall'' \<mapsto> ''unknown_field'']\<rparr>)
             (LogSource (testLog 0 150)) = Some ''unknown_field''"
    by (simp add: testLog_def)
  have u: "''unknown_field'' \<notin> {''connection_count'', ''bytes_sent'', ''bytes_recv''}"
    by simp
  show ?thesis
    using s u unknown_metric_dropped [OF s u, of 0] by (simp add: testDetector_def)
qed

section \<open>The counters\<close>

text \<open>
  C7, as stated, fails.  The claim reads: the processed counter is incremented as part of
  the flush transition, once per emitted Decision.  A record that opens a window and
  causes no flush (no message, the window stays) still increments the counter.
\<close>

theorem processed_per_flush_counterexample:
  "fst (processLog 0 testDetector (testLog 0 150)) = (None, None)
   \<and> getWindow (snd (processLog 0 testDetector (testLog 0 150))) ''fortinet.firewall'' \<noteq> None
   \<and> processedLogs (snd (processLog 0 testDetector (testLog 0 150)))
       = processedLogs testDetector + 1"
  by (simp add: processLog_def eval_defs)

text \<open>
  C7, amended.  The processed counter is incremented exactly once by every call of
  \<open>processLog\<close>, whether the record is dropped, only added to its window, or causes a flush;
  a call emits at most one Decision, and the anomalies-detected counter is incremented
  exactly when a Decision is emitted and it is anomalous.
\<close>

theorem processed_per_record:
  "processedLogs (snd (processLog now f lg)) = processedLogs f + 1
   \<and> anomaliesDetected (snd (processLog now f lg))
       = anomaliesDetected f
         + (case fst (fst (processLog now f lg)) of
              None \<Rightarrow> 0
            | Some msg \<Rightarrow> if is_anomaly msg then 1 else 0)"
  by (simp add: processLog_def Let_def updateWindow_frame clearWindow_frame
           split: option.splits)

section \<open>The baseline mean\<close>

lemma baseline_updateWindow:
  assumes "\<forall>k w. windows f k = Some w \<longrightarrow> LastMean w = 0"
  shows "\<forall>k' w. windows (updateWindow f k v ip t) k' = Some w \<longrightarrow> LastMean w = 0"
  using assms
  by (auto simp: updateWindow_windows Let_def split: if_splits option.splits)

lemma baseline_clearWindow:
  assumes "\<forall>k w. windows f k = Some w \<longrightarrow> LastMean w = 0"
  shows "\<forall>k' w. windows (clearWindow f k) k' = Some w \<longrightarrow> LastMean w = 0"
  using assms by (auto simp: clearWindow_windows split: if_splits)

lemma processLog_windows:
  "windows (snd (processLog now f lg)) = windows f
   \<or> (\<exists>k v ip t. windows (snd (processLog now f lg)) = windows (updateWindow f k v ip t))
   \<or> (\<exists>k v ip t k'. windows (snd (processLog now f lg))
                        = windows (clearWindow (updateWindow f k v ip t) k'))"
proof -
  have u: "windows (updateWindow (f\<lparr>processedLogs := n\<rparr>) k v ip t)
             = windows (updateWindow f k v ip t)" for n k v ip t
    by (rule ext) (simp add: updateWindow_windows Let_def split: option.splits)
  have c: "windows (clearWindow (g\<lparr>anomaliesDetected := m\<rparr>) k) = windows (clearWindow g k)"
    for g m k
    by (simp add: clearWindow_def)
  have c': "windows (clearWindow (updateWindow (f\<lparr>processedLogs := n\<rparr>) k v ip t) k')
             = windows (clearWindow (updateWindow f k v ip t) k')" for n k v ip t k'
    by (simp add: clearWindow_def u)
  show ?thesis
    by (simp add: processLog_def Let_def u c c' split: option.splits) blast
qed

lemma baseline_processLog:
  assumes "\<forall>k w. windows f k = Some w \<longrightarrow> LastMean w = 0"
  shows "\<forall>k' w. windows (snd (processLog now f lg)) k' = Some w \<longrightarrow> LastMean w = 0"
  using processLog_windows [of now f lg] assms
        baseline_updateWindow [OF assms] baseline_clearWindow [OF baseline_updateWindow [OF assms]]
  by (elim disjE exE) simp_all

lemma baseline_applyOp:
  assumes "\<forall>k w. windows f k = Some w \<longrightarrow> LastMean w = 0"
  shows "\<forall>k w. windows (applyOp f op) k = Some w \<longrightarrow> LastMean w = 0"
  using baseline_updateWindow [OF assms] baseline_clearWindow [OF assms]
        baseline_processLog [OF assms]
  by (cases op) simp_all

lemma baseline_runOps:
  "\<forall>k w. windows f k = Some w \<longrightarrow> LastMean w = 0 \<Longrightarrow>
     \<forall>k w. windows (runOps f ops) k = Some w \<longrightarrow> LastMean w = 0"
proof (induction ops arbitrary: f)
  case Nil
  then show ?case by simp
next
  case (Cons op ops)
  from Cons.IH [OF baseline_applyOp [OF Cons.prems, of op]] show ?case by simp
qed

lemma percent_change_zero:
  "LastMean w = 0 \<Longrightarrow> extractFeatures w ''percent_change'' = Some (Finite 0)"
  by (cases "Values w") (simp_all add: extractFeatures_def Let_def split: prod.splits)

lemma test_ops:
  "windows (runOps testDetector
             [OpProcessLog 0 (testLog 0 150),
              OpProcessLog 1000000000 (testLog 1000000000 250)]) ''fortinet.firewall''
     = Some \<lparr>Values = [150, 250], IPs = {|''192.168.1.100''|}, LastMean = 0,
             StartTime = 0, EndTime = 60000000000\<rparr>"
  by (simp add: processLog_def eval_defs)

text \<open>
  C9.  Starting from a detector with an empty registry, every window that any sequence of
  \<open>updateWindow\<close>, \<open>clearWindow\<close> and \<open>processLog\<close> calls leaves in the registry has baseline
  mean \<open>LastMean = 0\<close>, and \<open>extractFeatures\<close> on it returns \<open>percent_change = 0\<close>.
\<close>

theorem baseline_always_zero:
  assumes "windows f0 = Map.empty" and "windows (runOps f0 ops) k = Some w"
  shows "LastMean w = 0 \<and> extractFeatures w ''percent_change'' = Some (Finite 0)"
proof -
  from assms(1) have "\<forall>k w. windows f0 k = Some w \<longrightarrow> LastMean w = 0" by simp
  then have "\<forall>k w. windows (runOps f0 ops) k = Some w \<longrightarrow> LastMean w = 0"
    by (rule baseline_runOps)
  with assms(2) have "LastMean w = 0" by blast
  then show ?thesis by (simp add: percent_change_zero)
qed

theorem baseline_always_zero_witness:
  "windows testDetector = Map.empty
   \<and> windows (runOps testDetector
                [OpProcessLog 0 (testLog 0 150),
                 OpProcessLog 1000000000 (testLog 1000000000 250)]) ''fortinet.firewall''
       = Some \<lparr>Values = [150, 250], IPs = {|''192.168.1.100''|}, LastMean = 0,
               StartTime = 0, EndTime = 60000000000\<rparr>
   \<and> extractFeatures \<lparr>Values = [150, 250], IPs = {|''192.168.1.100''|}, LastMean = 0,
                       StartTime = 0, EndTime = 60000000000\<rparr> ''percent_change''
       = Some (Finite 0)"
proof -
  have e: "windows testDetector = Map.empty" by (simp add: testDetector_def)
  show ?thesis
    using e test_ops baseline_always_zero [OF e test_ops] by simp
qed

section \<open>Invariants of the window store\<close>

lemma windowDuration_nonneg:
  assumes "0 \<le> ws" "ws \<le> 9223372036"
  shows "0 \<le> windowDuration ws"
proof -
  have "0 \<le> ws * 1000000000" using assms(1) by simp
  moreover have "ws * 1000000000 < 2 ^ 63" using assms(2) by simp
  ultimately have "wrap64 (ws * 1000000000) = ws * 1000000000"
    by (simp add: wrap64_def)
  then show ?thesis using assms(1) by (simp add: windowDuration_def)
qed

lemma upserts_windowSeconds: "windowSeconds (upserts f us) = windowSeconds f"
  by (induction f us rule: upserts.induct) (simp_all add: updateWindow_frame)

lemma updateWindow_grows:
  assumes "windows f k' = Some w"
  shows "\<exists>w'. windows (updateWindow f k v ip t) k' = Some w'
           \<and> length (Values w) \<le> length (Values w') \<and> fcard (IPs w) \<le> fcard (IPs w')"
proof (cases "k' = k")
  case True
  with assms show ?thesis
    by (simp add: updateWindow_windows Let_def fcard_finsert_le)
next
  case False
  with assms show ?thesis
    by (simp add: updateWindow_windows)
qed

lemma upserts_grows:
  assumes "windows f k' = Some w"
  shows "\<exists>w'. windows (upserts f us) k' = Some w'
           \<and> length (Values w) \<le> length (Values w') \<and> fcard (IPs w) \<le> fcard (IPs w')"
  using assms
proof (induction f us arbitrary: w rule: upserts.induct)
  case (1 f)
  then show ?case by simp
next
  case (2 f k v ip t us)
  from updateWindow_grows [OF "2.prems", of k v ip t] obtain w1
    where w1: "windows (updateWindow f k v ip t) k' = Some w1"
      and l1: "length (Values w) \<le> length (Values w1)"
      and c1: "fcard (IPs w) \<le> fcard (IPs w1)"
    by blast
  from "2.IH" [OF w1] obtain w'
    where "windows (upserts (updateWindow f k v ip t) us) k' = Some w'"
      and "length (Values w1) \<le> length (Values w')" and "fcard (IPs w1) \<le> fcard (IPs w')"
    by blast
  with l1 c1 show ?case by (intro exI [of _ w']) simp
qed

lemma updateWindow_ordered:
  assumes "0 \<le> windowDuration (windowSeconds f)"
    and "\<forall>k w. windows f k = Some w \<longrightarrow> StartTime w \<le> EndTime w"
  shows "\<forall>k' w. windows (updateWindow f k v ip t) k' = Some w \<longrightarrow> StartTime w \<le> EndTime w"
proof (intro allI impI)
  fix k' w
  assume w: "windows (updateWindow f k v ip t) k' = Some w"
  show "StartTime w \<le> EndTime w"
  proof (cases "k' = k")
    case False
    with w assms(2) show ?thesis by (simp add: updateWindow_windows)
  next
    case True
    show ?thesis
    proof (cases "windows f k")
      case None
      with True w assms(1) show ?thesis
        by (auto simp: updateWindow_windows Let_def split: if_splits)
    next
      case (Some w0)
      with assms(2) have "StartTime w0 \<le> EndTime w0" by blast
      with Some True w assms(1) show ?thesis
        by (auto simp: updateWindow_windows Let_def split: if_splits)
    qed
  qed
qed

lemma upserts_ordered:
  assumes "0 \<le> windowDuration (windowSeconds f)"
    and "\<forall>k w. windows f k = Some w \<longrightarrow> StartTime w \<le> EndTime w"
  shows "\<forall>k' w. windows (upserts f us) k' = Some w \<longrightarrow> StartTime w \<le> EndTime w"
  using assms
proof (induction f us rule: upserts.induct)
  case (1 f)
  then show ?case by simp
next
  case (2 f k v ip t us)
  have "0 \<le> windowDuration (windowSeconds (updateWindow f k v ip t))"
    using "2.prems"(1) by (simp add: updateWindow_frame)
  moreover have "\<forall>k' w. windows (updateWindow f k v ip t) k' = Some w
                   \<longrightarrow> StartTime w \<le> EndTime w"
    using "2.prems" by (rule updateWindow_ordered)
  ultimately show ?case using "2.IH" by simp
qed

lemma dom_updateWindow: "dom (windows (updateWindow f k v ip t)) = insert k (dom (windows f))"
  by (auto simp: updateWindow_windows dom_def split: if_splits)

lemma dom_upserts: "dom (windows (upserts f us)) = dom (windows f) \<union> fst ` set us"
  by (induction f us rule: upserts.induct) (auto simp: dom_updateWindow)

text \<open>
  A window is created only for a key that has none: the windows-created counter grows by
  the number of keys that gained a window.
\<close>

lemma upserts_created:
  "windowsCreated (upserts f us)
     = windowsCreated f + card (dom (windows (upserts f us)) - dom (windows f))"
proof (induction f us rule: upserts.induct)
  case (1 f)
  then show ?case by simp
next
  case (2 f k v ip t us)
  let ?f1 = "updateWindow f k v ip t"
  let ?D = "dom (windows (upserts ?f1 us))"
  have fin: "finite (?D - dom (windows f))"
    by (rule finite_subset [of _ "insert k (fst ` set us)"])
       (auto simp: dom_upserts dom_updateWindow)
  have kin: "k \<in> ?D" by (simp add: dom_upserts dom_updateWindow)
  show ?case
  proof (cases "windows f k")
    case None
    then have knot: "k \<notin> dom (windows f)" by (simp add: dom_def)
    have eq: "?D - dom (windows f) = insert k (?D - insert k (dom (windows f)))"
      using kin knot by auto
    have "card (?D - dom (windows f)) = Suc (card (?D - insert k (dom (windows f))))"
      by (subst eq, rule card_insert_disjoint) (use fin in auto)
    with 2 None show ?thesis
      by (simp add: updateWindow_created dom_updateWindow)
  next
    case (Some w)
    then have "insert k (dom (windows f)) = dom (windows f)" by (auto simp: dom_def)
    with 2 Some show ?thesis
      by (simp add: updateWindow_created dom_updateWindow)
  qed
qed

text \<open>
  C8, as stated, fails.  The claim reads: for a non-negative configured window duration
  every window has its end at or after its start.  The duration in nanoseconds is a signed
  64-bit product; with \<open>window_seconds = 9223372037\<close> it wraps to a negative value and the
  first \<open>updateWindow\<close> creates a window that ends before it starts.
\<close>

theorem window_order_overflow_counterexample:
  "0 \<le> windowSeconds (testDetector\<lparr>windowSeconds := 9223372037\<rparr>)
   \<and> windows (testDetector\<lparr>windowSeconds := 9223372037\<rparr>) = Map.empty
   \<and> windows (upserts (testDetector\<lparr>windowSeconds := 9223372037\<rparr>)
                [(''fortinet.firewall'', 150, ''192.168.1.100'', 0)]) ''fortinet.firewall''
       = Some \<lparr>Values = [150], IPs = {|''192.168.1.100''|}, LastMean = 0,
               StartTime = 0, EndTime = - 9223372036709551616\<rparr>"
  by (simp add: testDetector_def updateWindow_windows windowDuration_def wrap64_def)

text \<open>
  C8, amended.  For every sequence of \<open>updateWindow\<close> operations with a configured window
  duration between \<open>0\<close> and \<open>9223372036\<close> seconds (so that it fits the 64-bit nanosecond
  count), on a store whose windows end at or after their start: a key has at most one open
  window, a new one being created only for a key that has none; an existing window is
  still there afterwards with a sample sequence and an IP set at least as large; and
  every window ends at or after its start.
\<close>

theorem upserts_invariants:
  assumes "0 \<le> windowSeconds f" and "windowSeconds f \<le> 9223372036"
    and "\<forall>k w. windows f k = Some w \<longrightarrow> StartTime w \<le> EndTime w"
  shows "(\<forall>k w. windows f k = Some w \<longrightarrow>
            (\<exists>w'. windows (upserts f us) k = Some w'
                \<and> length (Values w) \<le> length (Values w')
                \<and> fcard (IPs w) \<le> fcard (IPs w')))
       \<and> (\<forall>k w'. windows (upserts f us) k = Some w' \<longrightarrow> StartTime w' \<le> EndTime w')
       \<and> windowsCreated (upserts f us)
           = windowsCreated f + card (dom (windows (upserts f us)) - dom (windows f))"
  using upserts_grows [of f _ _ us]
        upserts_ordered [OF windowDuration_nonneg [OF assms(1,2)] assms(3), of us]
        upserts_created [of f us]
  by blast

theorem upserts_invariants_witness:
  "0 \<le> windowSeconds openDetector \<and> windowSeconds openDetector \<le> 9223372036
   \<and> windows openDetector ''fortinet.firewall''
       = Some \<lparr>Values = [100], IPs = {|''192.168.1.100''|}, LastMean = 0,
               StartTime = 0, EndTime = 60000000000\<rparr>
   \<and> windows (upserts openDetector
                [(''fortinet.firewall'', 200, ''192.168.1.2'', 1000000000),
                 (''paloalto.firewall'', 5, ''10.0.0.1'', 2000000000)]) ''fortinet.firewall''
       = Some \<lparr>Values = [100, 200], IPs = {|''192.168.1.2'', ''192.168.1.100''|}, LastMean = 0,
               StartTime = 0, EndTime = 60000000000\<rparr>
   \<and> windows (upserts openDetector
                [(''fortinet.firewall'', 200, ''192.168.1.2'', 1000000000),
                 (''paloalto.firewall'', 5, ''10.0.0.1'', 2000000000)]) ''paloalto.firewall''
       = Some \<lparr>Values = [5], IPs = {|''10.0.0.1''|}, LastMean = 0,
               StartTime = 2000000000, EndTime = 62000000000\<rparr>
   \<and> windowsCreated (upserts openDetector
                [(''fortinet.firewall'', 200, ''192.168.1.2'', 1000000000),
                 (''paloalto.firewall'', 5, ''10.0.0.1'', 2000000000)])
       = windowsCreated openDetector
         + card (dom (windows (upserts openDetector
                [(''fortinet.firewall'', 200, ''192.168.1.2'', 1000000000),
                 (''paloalto.firewall'', 5, ''10.0.0.1'', 2000000000)]))
                 - dom (windows openDetector))"
proof -
  have h1: "0 \<le> windowSeconds openDetector"
    by (simp add: openDetector_eq testDetector_def)
  have h2: "windowSeconds openDetector \<le> 9223372036"
    by (simp add: openDetector_eq testDetector_def)
  have h3: "\<forall>k w. windows openDetector k = Some w \<longrightarrow> StartTime w \<le> EndTime w"
    by (auto simp: openDetector_eq testDetector_def split: if_splits)
  have w0: "windows openDetector ''fortinet.firewall''
       = Some \<lparr>Values = [100], IPs = {|''192.168.1.100''|}, LastMean = 0,
               StartTime = 0, EndTime = 60000000000\<rparr>"
    by (simp add: openDetector_eq testDetector_def)
  have ws: "windowSeconds openDetector = 60"
    by (simp add: openDetector_eq testDetector_def)
  let ?us = "[(''fortinet.firewall'', 200, ''192.168.1.2'', 1000000000),
              (''paloalto.firewall'', 5, ''10.0.0.1'', 2000000000)]"
  have w1: "windows (upserts openDetector ?us) ''fortinet.firewall''
       = Some \<lparr>Values = [100, 200], IPs = {|''192.168.1.2'', ''192.168.1.100''|}, LastMean = 0,
               StartTime = 0, EndTime = 60000000000\<rparr>"
    by (simp add: updateWindow_windows w0)
  have w2: "windows (upserts openDetector ?us) ''paloalto.firewall''
       = Some \<lparr>Values = [5], IPs = {|''10.0.0.1''|}, LastMean = 0,
               StartTime = 2000000000, EndTime = 62000000000\<rparr>"
    by (simp add: updateWindow_windows updateWindow_frame openDetector_eq testDetector_def
          windowDuration_60)
  from upserts_invariants [OF h1 h2 h3, of ?us]
  have c: "windowsCreated (upserts openDetector ?us)
             = windowsCreated openDetector
               + card (dom (windows (upserts openDetector ?us)) - dom (windows openDetector))"
    by blast
  from h1 h2 w0 w1 w2 c show ?thesis by blast
qed

section \<open>Concurrent callers and the flush\<close>

text \<open>A call that takes its three steps with no other call in between is \<open>processLog\<close>.\<close>

lemma callStep_processLog:
  "callStep now lg (callStep now lg (callStep now lg (Start, f)))
     = (Returned (fst (fst (processLog now f lg))), snd (processLog now f lg))"
  by (simp add: processLog_def Let_def updateWindow_frame split: option.splits)

text \<open>
  C4.  The claim reads: for one flush-eligibility event on one source-key seen by several
  concurrent callers, exactly one Decision is produced, the removal of the window and the
  returned snapshot being one atomic step.  In the code \<open>getWindow\<close> and \<open>clearWindow\<close> are
  two separate critical sections.  The detector holds one window from 0 to 60 seconds;
  two calls for that key run at clock reading 125 seconds.  When both take the step through
  \<open>getWindow\<close> before either clears the window, both return the Decision for that window;
  when the first call runs to its end before the second starts, only the first does.
\<close>

theorem interleaved_duplicate_decision:
  "fst (interleave [testLog 10000000000 100, testLog 20000000000 100]
         [(0, 125000000000), (1, 125000000000), (0, 125000000000),
          (1, 125000000000), (0, 125000000000), (1, 125000000000)]
         ([Start, Start], openDetector))
     = [Returned (Some flushedMessage), Returned (Some flushedMessage)]
   \<and> fst (interleave [testLog 10000000000 100, testLog 20000000000 100]
         [(0, 125000000000), (0, 125000000000), (0, 125000000000),
          (1, 125000000000), (1, 125000000000), (1, 125000000000)]
         ([Start, Start], openDetector))
     = [Returned (Some flushedMessage), Returned None]"
  by (simp add: openDetector_eq eval_defs flushedMessage_def)


end
